theory Spec2Isabelle
  imports Complex_Main "HOL-Library.Multiset"
begin

section \<open>The prediction engine of backend/engine/prediction_engine.py\<close>

text \<open>
  The engine is a Python class with four attributes and seven methods. Each method is a
  function from the engine before the call to a triple: how the call ended (a returned value
  or a raised exception), the engine after the call, and the calls made on collaborators
  (database manager, connection, cursor, logger) in the order the code makes them.
\<close>

subsection \<open>Python call results and the calls a method makes\<close>

text \<open>An exception raised by a collaborator; the engine itself raises none.\<close>

datatype exn = Exception string

datatype 'a py_return = Returned 'a | Raised exn

text \<open>
  The objects the engine can call. \<open>Algorithm i\<close> is the entry at index \<open>i\<close> of
  \<open>self.algorithms\<close>.
\<close>

datatype callee =
    DbManager | DbConnection | DbCursor | Logger
  | Algorithm nat | DeepLearningModel | ResultAggregator

text \<open>
  One method call on a collaborator: the object, the method name and the arguments that are
  strings. The text of a log message is not recorded, only its level.
\<close>

datatype event = Call callee string "string list"

fun callee_of :: "event \<Rightarrow> callee" where
  "callee_of (Call c m args) = c"

fun is_strategy :: "callee \<Rightarrow> bool" where
  "is_strategy (Algorithm i) = True"
| "is_strategy DeepLearningModel = True"
| "is_strategy ResultAggregator = True"
| "is_strategy c = False"

text \<open>The calls of a trace that go to a registered algorithm, the model or the aggregator.\<close>

definition strategy_calls :: "event list \<Rightarrow> event list" where
  "strategy_calls tr = filter (\<lambda>ev. is_strategy (callee_of ev)) tr"

text \<open>The calls of a trace that go to the database manager, a connection or a cursor.\<close>

fun is_store :: "callee \<Rightarrow> bool" where
  "is_store DbManager = True"
| "is_store DbConnection = True"
| "is_store DbCursor = True"
| "is_store c = False"

definition store_calls :: "event list \<Rightarrow> event list" where
  "store_calls tr = filter (\<lambda>ev. is_store (callee_of ev)) tr"

subsection \<open>Collaborators\<close>

text \<open>
  Modelled from the spec: the class BaseAlgorithm of the registered algorithms is not under
  src/. An algorithm object carries the fields of the spec's StrategyRecord: \<open>name\<close>,
  \<open>weight\<close>, \<open>total_predictions\<close>, \<open>correct_predictions\<close> and \<open>accuracy\<close>;
  \<open>last_prediction\<close> is the label of the Prediction the strategy produced for the window
  before the next outcome, if it produced one.
\<close>

record algorithm =
  alg_name :: string
  alg_weight :: real
  alg_accuracy :: real
  total_predictions :: nat
  correct_predictions :: nat
  last_prediction :: "string option"

text \<open>
  The deep-learning model as \<open>get_algorithm_stats\<close> reads it: \<open>hasattr(model, 'trained')\<close>,
  \<open>getattr(model, 'accuracy', 0.0)\<close> and \<open>getattr(model, 'version', '1.0')\<close>, so each of the
  three attributes may be absent. Modelled from the spec: \<open>model_weight\<close> is the model's own
  current weight (\<open>currentWeight()\<close> of the strategy contract); no line of the engine reads it.
  A model object is truthy, as a Python object without \<open>__bool__\<close> or \<open>__len__\<close> is.
\<close>

record lstm_model =
  trained :: "bool option"
  model_accuracy :: "real option"
  version :: "string option"
  model_weight :: real

text \<open>
  One entry of the list \<open>get_algorithm_stats\<close> returns: the dictionary with the keys
  \<open>name\<close>, \<open>weight\<close>, \<open>accuracy\<close> and, in the model's entry, \<open>trained\<close> and
  \<open>model_version\<close>.
\<close>

record stat =
  stat_name :: string
  stat_weight :: real
  stat_accuracy :: real
  stat_trained :: "bool option"
  stat_model_version :: "string option"

text \<open>The result aggregator is only stored by the engine, never called.\<close>

datatype aggregator = Aggregator string

text \<open>A row of the table \<open>game_results\<close>, with the columns \<open>save_result\<close> is given.\<close>

record row =
  row_id :: int
  result :: string
  timestamp :: string
  previous_pattern :: "string option"
  session_id :: int

text \<open>The keyword arguments of \<open>db_manager.save_result\<close>.\<close>

record save_args =
  arg_result :: string
  arg_timestamp :: string
  arg_previous_pattern :: "string option"
  arg_session_id :: int

text \<open>
  The class DatabaseManager is not under src/, so what it does is taken as given by the
  object itself:
  \<^item> \<open>get_connection\<close>: the exception \<open>_get_connection()\<close> raises, if it raises;
  \<^item> \<open>run_query\<close>: the exception \<open>cursor.execute\<close> raises, if it raises;
  \<^item> \<open>game_results\<close>: the rows of the table \<open>game_results\<close>;
  \<^item> \<open>save_result\<close>: for the arguments and the rows before the call, the id returned or the
    exception raised, and the rows after the call.
  A database-manager object is truthy.
\<close>

record database_manager =
  get_connection :: "exn option"
  run_query :: "exn option"
  game_results :: "row list"
  save_result :: "save_args \<Rightarrow> row list \<Rightarrow> int py_return \<times> row list"

text \<open>
  Modelled from the spec: no line under src/ builds the value \<open>predict\<close> is to return; the
  spec's Consensus has a label, an aggregate confidence and the contributing
  (strategy name, label, confidence, weight) tuples.
\<close>

record consensus =
  label :: string
  aggregate_confidence :: real
  contributions :: "(string \<times> string \<times> real \<times> real) list"

subsection \<open>The engine\<close>

record engine =
  algorithms :: "algorithm list"
  deep_learning_model :: "lstm_model option"
  result_aggregator :: "aggregator option"
  db_manager :: "database_manager option"

type_synonym 'a outcome = "'a py_return \<times> engine \<times> event list"

definition returned :: "'a outcome \<Rightarrow> 'a py_return" where
  "returned out = fst out"

definition engine_after :: "'a outcome \<Rightarrow> engine" where
  "engine_after out = fst (snd out)"

definition trace :: "'a outcome \<Rightarrow> event list" where
  "trace out = snd (snd out)"

text \<open>\<open>__init__\<close>: four empty attributes and one log line.\<close>

definition init :: "engine \<times> event list" where
  "init =
     (\<lparr>algorithms = [], deep_learning_model = None, result_aggregator = None,
       db_manager = None\<rparr>,
      [Call Logger ''info'' []])"

text \<open>\<open>register_algorithm\<close>: \<open>self.algorithms.append(algorithm)\<close>, then a log line.\<close>

definition register_algorithm :: "algorithm \<Rightarrow> engine \<Rightarrow> unit outcome" where
  "register_algorithm a e =
     (Returned (), e\<lparr>algorithms := algorithms e @ [a]\<rparr>, [Call Logger ''info'' []])"

definition set_deep_learning_model :: "lstm_model option \<Rightarrow> engine \<Rightarrow> unit outcome" where
  "set_deep_learning_model model e =
     (Returned (), e\<lparr>deep_learning_model := model\<rparr>, [Call Logger ''info'' []])"

definition set_result_aggregator :: "aggregator option \<Rightarrow> engine \<Rightarrow> unit outcome" where
  "set_result_aggregator agg e =
     (Returned (), e\<lparr>result_aggregator := agg\<rparr>, [Call Logger ''info'' []])"

definition set_db_manager :: "database_manager option \<Rightarrow> engine \<Rightarrow> unit outcome" where
  "set_db_manager db e =
     (Returned (), e\<lparr>db_manager := db\<rparr>, [Call Logger ''info'' []])"

subsection \<open>predict\<close>

text \<open>
  \<open>SELECT * FROM game_results ORDER BY id DESC LIMIT 20\<close>: the rows by descending id, the
  first twenty of them. The sort is stable: rows of equal id, which a key column excludes,
  stay in their table order.
\<close>

definition fetch_last_results :: "row list \<Rightarrow> row list" where
  "fetch_last_results t = take 20 (sort_key (\<lambda>r. - row_id r) t)"

definition select_sql :: string where
  "select_sql = ''SELECT * FROM game_results ORDER BY id DESC LIMIT 20''"

text \<open>
  The first block of \<open>predict\<close> (\<open>if data is None: ...\<close>) ends in one of three ways: the
  method goes on with \<open>data\<close>, it returns \<open>None\<close>, or an exception of the database leaves the
  method (the block has no \<open>try\<close>). \<open>data\<close> is the list under the key \<open>last_results\<close>.
\<close>

datatype data_step = Proceed "string list" | ReturnNone | Raise exn

definition predict_data :: "string list option \<Rightarrow> engine \<Rightarrow> data_step \<times> event list" where
  "predict_data data e =
     (case data of
        Some d \<Rightarrow> (Proceed d, [])
      | None \<Rightarrow>
          (case db_manager e of
             None \<Rightarrow> (ReturnNone, [Call Logger ''error'' []])
           | Some db \<Rightarrow>
               (case get_connection db of
                  Some x \<Rightarrow> (Raise x, [Call DbManager ''_get_connection'' []])
                | None \<Rightarrow>
                    (case run_query db of
                       Some x \<Rightarrow>
                         (Raise x,
                          [Call DbManager ''_get_connection'' [],
                           Call DbConnection ''cursor'' [],
                           Call DbCursor ''execute'' [select_sql]])
                     | None \<Rightarrow>
                         (let last_results = fetch_last_results (game_results db);
                              tr = [Call DbManager ''_get_connection'' [],
                                    Call DbConnection ''cursor'' [],
                                    Call DbCursor ''execute'' [select_sql],
                                    Call DbCursor ''fetchall'' []]
                          in if last_results = []
                             then (ReturnNone, tr @ [Call Logger ''warning'' []])
                             else (Proceed (rev (map result last_results)), tr))))))"

text \<open>
  The second block (\<open>if save_prediction and self.db_manager: try: ... except Exception\<close>):
  a connection and a cursor are opened and nothing is written; an exception is logged.
\<close>

definition predict_save :: "bool \<Rightarrow> engine \<Rightarrow> event list" where
  "predict_save save_prediction e =
     (if save_prediction
      then (case db_manager e of
              None \<Rightarrow> []
            | Some db \<Rightarrow>
                (case get_connection db of
                   Some x \<Rightarrow> [Call DbManager ''_get_connection'' [], Call Logger ''error'' []]
                 | None \<Rightarrow> [Call DbManager ''_get_connection'' [],
                            Call DbConnection ''cursor'' []]))
      else [])"

text \<open>
  \<open>predict\<close>: the two blocks in sequence. The method has no \<open>return\<close> after them, so it
  returns \<open>None\<close>; no attribute of \<open>self\<close> is assigned.
\<close>

definition predict :: "string list option \<Rightarrow> bool \<Rightarrow> engine \<Rightarrow> consensus option outcome" where
  "predict data save_prediction e =
     (case predict_data data e of
        (Raise x, tr) \<Rightarrow> (Raised x, e, tr)
      | (ReturnNone, tr) \<Rightarrow> (Returned None, e, tr)
      | (Proceed d, tr) \<Rightarrow> (Returned None, e, tr @ predict_save save_prediction e))"

subsection \<open>update_results\<close>

text \<open>
  \<open>update_results\<close>: without a database manager, log and return -1. Otherwise call
  \<open>save_result\<close> with the result as given, the current time (\<open>now\<close> stands for
  \<open>datetime.now().isoformat()\<close>), no previous pattern and session 1; return its id, or log
  and return -1 when it raises.
\<close>

definition result_args :: "string \<Rightarrow> string \<Rightarrow> save_args" where
  "result_args actual_result now =
     \<lparr>arg_result = actual_result, arg_timestamp = now,
      arg_previous_pattern = None, arg_session_id = 1\<rparr>"

definition update_results :: "string \<Rightarrow> string \<Rightarrow> engine \<Rightarrow> int outcome" where
  "update_results actual_result now e =
     (case db_manager e of
        None \<Rightarrow> (Returned (- 1), e, [Call Logger ''error'' []])
      | Some db \<Rightarrow>
          (let args = result_args actual_result now;
               call = Call DbManager ''save_result'' [actual_result, now, ''None'', ''1''];
               e' = e\<lparr>db_manager :=
                        Some (db\<lparr>game_results := snd (save_result db args (game_results db))\<rparr>)\<rparr>
           in case fst (save_result db args (game_results db)) of
                Returned result_id \<Rightarrow> (Returned result_id, e', [call, Call Logger ''info'' []])
              | Raised x \<Rightarrow> (Returned (- 1), e', [call, Call Logger ''error'' []])))"

subsection \<open>get_algorithm_stats\<close>

text \<open>
  The loop \<open>for algorithm in self.algorithms: stats.append(algorithm.get_info())\<close>.
  \<open>get_info\<close> is a method of BaseAlgorithm, which is not under src/: it is a parameter,
  taken to read the algorithm and change nothing.
\<close>

fun append_infos :: "(algorithm \<Rightarrow> stat) \<Rightarrow> algorithm list \<Rightarrow> stat list \<Rightarrow> stat list" where
  "append_infos get_info [] stats = stats"
| "append_infos get_info (a # as) stats = append_infos get_info as (stats @ [get_info a])"

text \<open>The dictionary appended for the model.\<close>

definition lstm_stat :: "lstm_model \<Rightarrow> bool \<Rightarrow> stat" where
  "lstm_stat m t =
     \<lparr>stat_name = ''LSTM'',
      stat_weight = 3 / 2,
      stat_accuracy = (case model_accuracy m of None \<Rightarrow> 0 | Some a \<Rightarrow> a),
      stat_trained = Some t,
      stat_model_version = Some (case version m of None \<Rightarrow> ''1.0'' | Some v \<Rightarrow> v)\<rparr>"

definition get_algorithm_stats :: "(algorithm \<Rightarrow> stat) \<Rightarrow> engine \<Rightarrow> stat list" where
  "get_algorithm_stats get_info e =
     (let stats = append_infos get_info (algorithms e) []
      in case deep_learning_model e of
           None \<Rightarrow> stats
         | Some m \<Rightarrow>
             (case trained m of
                None \<Rightarrow> stats
              | Some t \<Rightarrow> stats @ [lstm_stat m t]))"

subsection \<open>Example objects\<close>

text \<open>
  Modelled from the spec: a \<open>get_info\<close> that returns the summary
  \<open>{name, weight, accuracy}\<close> of the algorithm it is called on.
\<close>

definition get_info :: "algorithm \<Rightarrow> stat" where
  "get_info a =
     \<lparr>stat_name = alg_name a, stat_weight = alg_weight a, stat_accuracy = alg_accuracy a,
      stat_trained = None, stat_model_version = None\<rparr>"

text \<open>A store that inserts every row it is given, under the next free id.\<close>

definition insert_row :: "save_args \<Rightarrow> row list \<Rightarrow> int py_return \<times> row list" where
  "insert_row args t =
     (Returned (int (length t) + 1),
      t @ [\<lparr>row_id = int (length t) + 1, result = arg_result args,
             timestamp = arg_timestamp args, previous_pattern = arg_previous_pattern args,
             session_id = arg_session_id args\<rparr>])"

text \<open>A store whose insert raises and writes nothing.\<close>

definition failing_insert :: "save_args \<Rightarrow> row list \<Rightarrow> int py_return \<times> row list" where
  "failing_insert args t = (Raised (Exception ''database is locked''), t)"

definition mk_row :: "int \<Rightarrow> string \<Rightarrow> row" where
  "mk_row i r =
     \<lparr>row_id = i, result = r, timestamp = '''', previous_pattern = None, session_id = 1\<rparr>"

definition working_db :: "row list \<Rightarrow> database_manager" where
  "working_db t =
     \<lparr>get_connection = None, run_query = None, game_results = t, save_result = insert_row\<rparr>"

definition broken_db :: "row list \<Rightarrow> database_manager" where
  "broken_db t =
     \<lparr>get_connection = None, run_query = None, game_results = t,
      save_result = failing_insert\<rparr>"

text \<open>The strategies of the spec's scenarios A and C: S1 predicted B, S2 predicted P.\<close>

definition S1 :: algorithm where
  "S1 = \<lparr>alg_name = ''S1'', alg_weight = 1, alg_accuracy = 0,
         total_predictions = 0, correct_predictions = 0, last_prediction = Some ''B''\<rparr>"

definition S2 :: algorithm where
  "S2 = \<lparr>alg_name = ''S2'', alg_weight = 1, alg_accuracy = 0,
         total_predictions = 0, correct_predictions = 0, last_prediction = Some ''P''\<rparr>"

definition untrained_model :: lstm_model where
  "untrained_model =
     \<lparr>trained = Some False, model_accuracy = None, version = None, model_weight = 1\<rparr>"

definition trained_model :: lstm_model where
  "trained_model =
     \<lparr>trained = Some True, model_accuracy = Some (3 / 5), version = Some ''2.0'',
      model_weight = 7 / 10\<rparr>"

text \<open>Three stored outcomes, not in id order.\<close>

definition three_rows :: "row list" where
  "three_rows = [mk_row 2 ''B'', mk_row 3 ''T'', mk_row 1 ''P'']"

text \<open>
  The outcomes of rounds \<open>n\<close> down to 1, stored under ids \<open>n\<close> down to 1: B on even rounds,
  P on odd ones.
\<close>

definition numbered_rows :: "nat \<Rightarrow> row list" where
  "numbered_rows n =
     map (\<lambda>i. mk_row (int i) (if even i then ''B'' else ''P'')) (rev [1..<Suc n])"

text \<open>The engine of the spec's scenario A: two registered strategies, no model.\<close>

definition engine_A :: "database_manager option \<Rightarrow> engine" where
  "engine_A db =
     \<lparr>algorithms = [S1, S2], deep_learning_model = None, result_aggregator = None,
      db_manager = db\<rparr>"

text \<open>The results stored in the table of the engine's database manager, in table order.\<close>

definition stored_results :: "engine \<Rightarrow> string list" where
  "stored_results e =
     (case db_manager e of None \<Rightarrow> [] | Some db \<Rightarrow> map result (game_results db))"

section \<open>Properties\<close>

subsection \<open>Helper lemmas\<close>

lemma append_infos_map: "append_infos gi as stats = stats @ map gi as"
  by (induction as arbitrary: stats) simp_all

lemma predict_engine_unchanged: "engine_after (predict data save_prediction e) = e"
  by (simp add: predict_def engine_after_def split: prod.splits data_step.splits)

lemma predict_returns_no_consensus: "returned (predict data save_prediction e) \<noteq> Returned (Some c)"
  by (simp add: predict_def returned_def split: prod.splits data_step.splits)

lemma strategy_calls_predict_data: "strategy_calls (snd (predict_data data e)) = []"
  by (simp add: predict_data_def strategy_calls_def Let_def split: option.splits)

lemma strategy_calls_predict_save: "strategy_calls (predict_save save_prediction e) = []"
  unfolding predict_save_def strategy_calls_def
  by (cases save_prediction) (simp_all split: option.splits)

lemma strategy_calls_append: "strategy_calls (xs @ ys) = strategy_calls xs @ strategy_calls ys"
  by (simp add: strategy_calls_def)

lemma predict_calls_no_strategy: "strategy_calls (trace (predict data save_prediction e)) = []"
proof -
  obtain st tr where pd: "predict_data data e = (st, tr)"
    by (cases "predict_data data e")
  have tr: "strategy_calls tr = []"
    using strategy_calls_predict_data [of data e] by (simp add: pd)
  show ?thesis
    by (cases st)
      (simp_all add: predict_def trace_def pd tr strategy_calls_append
         strategy_calls_predict_save)
qed

lemma update_results_algorithms:
  "algorithms (engine_after (update_results actual_result now e)) = algorithms e"
  by (simp add: update_results_def engine_after_def Let_def
      split: option.splits py_return.splits)

lemma update_results_model:
  "deep_learning_model (engine_after (update_results actual_result now e)) =
     deep_learning_model e"
  by (simp add: update_results_def engine_after_def Let_def
      split: option.splits py_return.splits)

lemma update_results_calls_no_strategy:
  "strategy_calls (trace (update_results actual_result now e)) = []"
  by (simp add: update_results_def trace_def strategy_calls_def Let_def
      split: option.splits py_return.splits)

lemma sort_key_Nil_iff: "sort_key f xs = [] \<longleftrightarrow> xs = []"
proof -
  have "length (sort_key f xs) = length xs"
    by simp
  then show ?thesis
    by (metis length_0_conv)
qed

lemma fetch_last_results_Nil_iff: "fetch_last_results t = [] \<longleftrightarrow> t = []"
  by (simp add: fetch_last_results_def sort_key_Nil_iff)

lemma sorted_rev_descending:
  "sorted (map row_id (rev (sort_key (\<lambda>r. - row_id r) t)))"
proof -
  have "sorted (map (\<lambda>r. - row_id r) (sort_key (\<lambda>r. - row_id r) t))"
    by (rule sorted_sort_key)
  then have "sorted_wrt (\<lambda>x y. row_id y \<le> row_id x) (sort_key (\<lambda>r. - row_id r) t)"
    by (simp add: sorted_map)
  then show ?thesis
    by (simp add: sorted_map sorted_wrt_rev)
qed

lemma rev_descending_ascending:
  assumes "distinct (map row_id t)"
  shows "rev (sort_key (\<lambda>r. - row_id r) t) = sort_key row_id t"
proof -
  have same: "mset t = mset (rev (sort_key (\<lambda>r. - row_id r) t))"
    by simp
  have inj: "inj_on row_id (set t)"
    using assms by (simp add: distinct_map)
  have "sort_key row_id t = rev (sort_key (\<lambda>r. - row_id r) t)"
    using same inj sorted_rev_descending by (rule sort_key_inj_key_eq)
  then show ?thesis
    by simp
qed

lemma rev_fetch_last_results:
  assumes "distinct (map row_id t)"
  shows "rev (fetch_last_results t) = drop (length t - 20) (sort_key row_id t)"
proof -
  have "rev (fetch_last_results t) =
          drop (length t - 20) (rev (sort_key (\<lambda>r. - row_id r) t))"
    by (simp add: fetch_last_results_def rev_take)
  then show ?thesis
    by (simp add: rev_descending_ascending [OF assms])
qed

subsection \<open>predict\<close>

text \<open>
  C1. The claim: when a registered strategy would give a non-abstaining Prediction,
  \<open>predict\<close> calls \<open>predict\<close> on every registered strategy and on the model, aggregates, and
  returns a Consensus. The code at the input of the spec's scenario A (strategies S1 and S2
  registered, window P B P P B supplied, saving on, a working store): the call returns
  \<open>None\<close>, and its only calls open a connection and a cursor; no strategy, model or aggregator
  is called.
\<close>

theorem predict_scenario_A:
  "predict (Some [''P'', ''B'', ''P'', ''P'', ''B'']) True (engine_A (Some (working_db []))) =
     (Returned None, engine_A (Some (working_db [])),
      [Call DbManager ''_get_connection'' [], Call DbConnection ''cursor'' []])"
  by (simp add: predict_def predict_data_def predict_save_def engine_A_def working_db_def)

text \<open>
  C6. With a database manager whose connection and query succeed and whose table
  \<open>game_results\<close> is not empty and has \<open>id\<close> as its key, \<open>predict\<close> without data asks
  the store for the rows (connection, cursor, the query with \<open>LIMIT 20\<close>, \<open>fetchall\<close>) and
  goes on to its second block with the window built from them: the query gives the rows by
  descending id, at most 20 of them; the window is their results reversed, that is the
  results of the last (at most 20) rows in ascending id order. Its length is the smaller of
  20 and the number of rows, and the ids it was taken from are ascending.
\<close>

theorem predict_window:
  assumes "db_manager e = Some db"
    and "get_connection db = None"
    and "run_query db = None"
    and "game_results db \<noteq> []"
    and "distinct (map row_id (game_results db))"
  shows "trace (predict None save_prediction e) =
           [Call DbManager ''_get_connection'' [],
            Call DbConnection ''cursor'' [],
            Call DbCursor ''execute'' [''SELECT * FROM game_results ORDER BY id DESC LIMIT 20''],
            Call DbCursor ''fetchall'' []] @ predict_save save_prediction e
         \<and> predict_data None e =
           (Proceed (map result (drop (length (game_results db) - 20)
                                   (sort_key row_id (game_results db)))),
            take 4 (trace (predict None save_prediction e)))
         \<and> fetch_last_results (game_results db) =
           rev (drop (length (game_results db) - 20) (sort_key row_id (game_results db)))
         \<and> length (map result (drop (length (game_results db) - 20)
                                  (sort_key row_id (game_results db)))) =
           min 20 (length (game_results db))
         \<and> sorted (map row_id (drop (length (game_results db) - 20)
                                  (sort_key row_id (game_results db))))"
proof -
  let ?t = "game_results db"
  let ?chosen = "drop (length ?t - 20) (sort_key row_id ?t)"
  let ?calls = "[Call DbManager ''_get_connection'' [],
            Call DbConnection ''cursor'' [],
            Call DbCursor ''execute'' [''SELECT * FROM game_results ORDER BY id DESC LIMIT 20''],
            Call DbCursor ''fetchall'' []]"
  have nonempty: "fetch_last_results ?t \<noteq> []"
    using assms(4) by (simp add: fetch_last_results_Nil_iff)
  have step: "predict_data None e =
                (Proceed (rev (map result (fetch_last_results ?t))), ?calls)"
    using assms(1-3) nonempty by (simp add: predict_data_def select_sql_def Let_def)
  have "rev (map result (fetch_last_results ?t)) = map result (rev (fetch_last_results ?t))"
    by (simp add: rev_map)
  also have "rev (fetch_last_results ?t) = ?chosen"
    using assms(5) by (rule rev_fetch_last_results)
  finally have window: "predict_data None e = (Proceed (map result ?chosen), ?calls)"
    by (simp add: step)
  have calls: "trace (predict None save_prediction e) = ?calls @ predict_save save_prediction e"
    by (simp add: predict_def trace_def window)
  have data: "predict_data None e =
                (Proceed (map result ?chosen), take 4 (trace (predict None save_prediction e)))"
    by (simp add: window calls)
  have fetched: "fetch_last_results ?t = rev ?chosen"
    using rev_fetch_last_results [OF assms(5)] by (metis rev_rev_ident)
  have len: "length (map result ?chosen) = min 20 (length ?t)"
    by simp
  have "sorted (map row_id (sort_key row_id ?t))"
    by (rule sorted_sort_key)
  then have "sorted (drop (length ?t - 20) (map row_id (sort_key row_id ?t)))"
    by (rule sorted_wrt_drop)
  then have asc: "sorted (map row_id ?chosen)"
    by (simp add: drop_map)
  from calls data fetched len asc show ?thesis
    by blast
qed

theorem predict_window_witness:
  "db_manager (engine_A (Some (working_db three_rows))) = Some (working_db three_rows)
   \<and> get_connection (working_db three_rows) = None
   \<and> run_query (working_db three_rows) = None
   \<and> game_results (working_db three_rows) \<noteq> []
   \<and> distinct (map row_id (game_results (working_db three_rows)))
   \<and> fst (predict_data None (engine_A (Some (working_db three_rows)))) =
       Proceed [''P'', ''B'', ''T'']
   \<and> store_calls (trace (predict None True (engine_A (Some (working_db three_rows))))) =
       [Call DbManager ''_get_connection'' [],
        Call DbConnection ''cursor'' [],
        Call DbCursor ''execute'' [''SELECT * FROM game_results ORDER BY id DESC LIMIT 20''],
        Call DbCursor ''fetchall'' [],
        Call DbManager ''_get_connection'' [],
        Call DbConnection ''cursor'' []]"
proof -
  let ?e = "engine_A (Some (working_db three_rows))"
  have h1: "db_manager ?e = Some (working_db three_rows)"
    by (simp add: engine_A_def)
  have h2: "get_connection (working_db three_rows) = None"
    by (simp add: working_db_def)
  have h3: "run_query (working_db three_rows) = None"
    by (simp add: working_db_def)
  have h4: "game_results (working_db three_rows) \<noteq> []"
    by (simp add: working_db_def three_rows_def)
  have h5: "distinct (map row_id (game_results (working_db three_rows)))"
    by (simp add: working_db_def three_rows_def mk_row_def)
  have sorted3: "sort_key row_id three_rows = [mk_row 1 ''P'', mk_row 2 ''B'', mk_row 3 ''T'']"
    by (simp add: three_rows_def mk_row_def)
  have len3: "length three_rows = 3"
    by (simp add: three_rows_def)
  have save: "predict_save True ?e =
                [Call DbManager ''_get_connection'' [], Call DbConnection ''cursor'' []]"
    by (simp add: predict_save_def engine_A_def working_db_def)
  note inst = predict_window [OF h1 h2 h3 h4 h5, of True]
  from inst have window: "fst (predict_data None ?e) = Proceed [''P'', ''B'', ''T'']"
    by (simp add: working_db_def sorted3 len3 mk_row_def)
  from inst have calls: "store_calls (trace (predict None True ?e)) =
       [Call DbManager ''_get_connection'' [],
        Call DbConnection ''cursor'' [],
        Call DbCursor ''execute'' [''SELECT * FROM game_results ORDER BY id DESC LIMIT 20''],
        Call DbCursor ''fetchall'' [],
        Call DbManager ''_get_connection'' [],
        Call DbConnection ''cursor'' []]"
    by (simp add: save store_calls_def)
  from h1 h2 h3 h4 h5 window calls show ?thesis
    by blast
qed

text \<open>
  Two rows of equal id come back from the query in their table order, so the window holds
  their results in the reverse of it.
\<close>

lemma fetch_last_results_equal_ids:
  "fetch_last_results [mk_row 1 ''P'', mk_row 1 ''B''] = [mk_row 1 ''P'', mk_row 1 ''B'']
   \<and> fst (predict_data None (engine_A (Some (working_db [mk_row 1 ''P'', mk_row 1 ''B''])))) =
       Proceed [''B'', ''P'']"
  by (simp add: fetch_last_results_def predict_data_def engine_A_def working_db_def mk_row_def)

text \<open>
  With 23 stored outcomes the window holds the 20 of rounds 4 to 23, oldest first: the
  three oldest are left out.
\<close>

lemma predict_data_window_limit:
  "fst (predict_data None (engine_A (Some (working_db (numbered_rows 23))))) =
     Proceed [''B'', ''P'', ''B'', ''P'', ''B'', ''P'', ''B'', ''P'', ''B'', ''P'',
              ''B'', ''P'', ''B'', ''P'', ''B'', ''P'', ''B'', ''P'', ''B'', ''P'']"
  by code_simp

text \<open>
  C10. \<open>predict\<close> leaves the engine as it found it, whatever the data and the
  save-prediction flag: the list of registered algorithms, the deep-learning model, the
  result aggregator and the database manager after the call are those before it.
\<close>

theorem predict_frame:
  "algorithms (engine_after (predict data save_prediction e)) = algorithms e
   \<and> deep_learning_model (engine_after (predict data save_prediction e)) =
       deep_learning_model e
   \<and> result_aggregator (engine_after (predict data save_prediction e)) = result_aggregator e
   \<and> db_manager (engine_after (predict data save_prediction e)) = db_manager e"
  by (simp add: predict_engine_unchanged)

subsection \<open>update_results\<close>

text \<open>
  C2. The claim: after an outcome is persisted, every strategy that produced a Prediction for
  the preceding window has \<open>onOutcome\<close> called, its \<open>total_predictions\<close> incremented, and
  its \<open>correct_predictions\<close> incremented when its label is the outcome. The code at the
  input of the spec's scenario C (S1 predicted B, S2 predicted P, the outcome B is stored
  under id 1): the outcome is written, no strategy is called and both records keep
  \<open>total_predictions = 0\<close> and \<open>correct_predictions = 0\<close>.
\<close>

theorem update_results_scenario_C:
  "returned (update_results ''B'' ''t0'' (engine_A (Some (working_db [])))) = Returned 1
   \<and> stored_results (engine_after (update_results ''B'' ''t0'' (engine_A (Some (working_db [])))))
       = [''B'']
   \<and> map last_prediction (algorithms (engine_A (Some (working_db [])))) = [Some ''B'', Some ''P'']
   \<and> map total_predictions
         (algorithms (engine_after (update_results ''B'' ''t0'' (engine_A (Some (working_db []))))))
       = [0, 0]
   \<and> map correct_predictions
         (algorithms (engine_after (update_results ''B'' ''t0'' (engine_A (Some (working_db []))))))
       = [0, 0]
   \<and> trace (update_results ''B'' ''t0'' (engine_A (Some (working_db [])))) =
       [Call DbManager ''save_result'' [''B'', ''t0'', ''None'', ''1''], Call Logger ''info'' []]"
  by (simp add: update_results_def returned_def engine_after_def trace_def stored_results_def
      engine_A_def working_db_def insert_row_def result_args_def S1_def S2_def)

text \<open>
  C3, as the code has it. \<open>update_results\<close> does not validate the outcome. With a database
  manager set, whatever string the outcome is, the one call made on the store is
  \<open>save_result\<close> with that string unchanged; the call returns the id the store returns, or
  -1 when the store raises; and the table is left as \<open>save_result\<close> leaves it.
\<close>

theorem update_results_no_validation:
  assumes "db_manager e = Some db"
  shows "store_calls (trace (update_results actual_result now e)) =
           [Call DbManager ''save_result'' [actual_result, now, ''None'', ''1'']]
         \<and> returned (update_results actual_result now e) =
           (case fst (save_result db (result_args actual_result now) (game_results db)) of
              Returned result_id \<Rightarrow> Returned result_id
            | Raised x \<Rightarrow> Returned (- 1))
         \<and> db_manager (engine_after (update_results actual_result now e)) =
           Some (db\<lparr>game_results :=
                      snd (save_result db (result_args actual_result now) (game_results db))\<rparr>)"
  using assms
  by (simp add: update_results_def store_calls_def trace_def returned_def engine_after_def
      Let_def split: py_return.splits)

theorem update_results_no_validation_witness:
  "db_manager (engine_A (Some (working_db []))) = Some (working_db [])
   \<and> store_calls (trace (update_results ''X'' ''t0'' (engine_A (Some (working_db []))))) =
       [Call DbManager ''save_result'' [''X'', ''t0'', ''None'', ''1'']]
   \<and> returned (update_results ''X'' ''t0'' (engine_A (Some (working_db [])))) = Returned 1"
proof -
  have h: "db_manager (engine_A (Some (working_db []))) = Some (working_db [])"
    by (simp add: engine_A_def)
  show ?thesis
    using h update_results_no_validation [OF h, of "''X''" "''t0''"]
    by (simp add: working_db_def insert_row_def)
qed

text \<open>
  The claim C3 as stated fails: the outcome X is not one of P, B, T, yet the call returns
  the new id 1 and X has been written to the store.
\<close>

theorem update_results_invalid_outcome_counterexample:
  "returned (update_results ''X'' ''t0'' (engine_A (Some (working_db [])))) = Returned 1
   \<and> store_calls (trace (update_results ''X'' ''t0'' (engine_A (Some (working_db []))))) =
       [Call DbManager ''save_result'' [''X'', ''t0'', ''None'', ''1'']]
   \<and> stored_results (engine_after (update_results ''X'' ''t0'' (engine_A (Some (working_db [])))))
       = [''X'']"
  by (simp add: update_results_def returned_def engine_after_def trace_def stored_results_def
      store_calls_def engine_A_def working_db_def insert_row_def result_args_def)

text \<open>
  C4, as the code has it. When \<open>save_result\<close> raises, \<open>update_results\<close> catches the
  exception, logs an error and returns -1, the value its docstring gives for an error; the
  exception does not reach the caller.
\<close>

theorem update_results_catches_failure:
  assumes "db_manager e = Some db"
    and "fst (save_result db (result_args actual_result now) (game_results db)) = Raised x"
  shows "returned (update_results actual_result now e) = Returned (- 1)
         \<and> trace (update_results actual_result now e) =
           [Call DbManager ''save_result'' [actual_result, now, ''None'', ''1''],
            Call Logger ''error'' []]"
  using assms
  by (simp add: update_results_def trace_def returned_def Let_def)

theorem update_results_catches_failure_witness:
  "db_manager (engine_A (Some (broken_db []))) = Some (broken_db [])
   \<and> fst (save_result (broken_db []) (result_args ''B'' ''t0'') (game_results (broken_db [])))
       = Raised (Exception ''database is locked'')
   \<and> returned (update_results ''B'' ''t0'' (engine_A (Some (broken_db [])))) = Returned (- 1)
   \<and> trace (update_results ''B'' ''t0'' (engine_A (Some (broken_db [])))) =
       [Call DbManager ''save_result'' [''B'', ''t0'', ''None'', ''1''],
        Call Logger ''error'' []]"
proof -
  have h1: "db_manager (engine_A (Some (broken_db []))) = Some (broken_db [])"
    by (simp add: engine_A_def)
  have h2: "fst (save_result (broken_db []) (result_args ''B'' ''t0'')
                   (game_results (broken_db [])))
            = Raised (Exception ''database is locked'')"
    by (simp add: broken_db_def failing_insert_def)
  show ?thesis
    using h1 h2 update_results_catches_failure [OF h1 h2]
    by simp
qed

text \<open>
  The claim C4 as stated fails: the write raises, and the call still ends with a returned
  integer, not with the exception.
\<close>

theorem update_results_persistence_error_counterexample:
  "fst (save_result (broken_db []) (result_args ''B'' ''t0'') (game_results (broken_db [])))
     = Raised (Exception ''database is locked'')
   \<and> returned (update_results ''B'' ''t0'' (engine_A (Some (broken_db [])))) = Returned (- 1)
   \<and> returned (update_results ''B'' ''t0'' (engine_A (Some (broken_db []))))
       \<noteq> Raised (Exception ''database is locked'')"
  by (simp add: update_results_def returned_def engine_A_def broken_db_def failing_insert_def)

text \<open>
  C5. When the outcome is not persisted (no database manager is set, or \<open>save_result\<close>
  raises), no record of a strategy is changed: the registered algorithms, with their
  \<open>total_predictions\<close>, \<open>correct_predictions\<close>, accuracy and weight, and the model are after
  the call what they were before it, no strategy is called, and the call returns -1.
\<close>

theorem update_results_failed_persist:
  assumes "db_manager e = None
           \<or> (\<exists>db x. db_manager e = Some db
                \<and> fst (save_result db (result_args actual_result now) (game_results db))
                    = Raised x)"
  shows "algorithms (engine_after (update_results actual_result now e)) = algorithms e
         \<and> deep_learning_model (engine_after (update_results actual_result now e)) =
           deep_learning_model e
         \<and> strategy_calls (trace (update_results actual_result now e)) = []
         \<and> returned (update_results actual_result now e) = Returned (- 1)"
proof -
  have "returned (update_results actual_result now e) = Returned (- 1)"
    using assms
    by (auto simp add: update_results_def returned_def Let_def)
  then show ?thesis
    by (simp add: update_results_algorithms update_results_model
        update_results_calls_no_strategy)
qed

theorem update_results_failed_persist_witness:
  "(\<exists>db x. db_manager (engine_A (Some (broken_db []))) = Some db
       \<and> fst (save_result db (result_args ''B'' ''t0'') (game_results db)) = Raised x)
   \<and> algorithms (engine_after (update_results ''B'' ''t0'' (engine_A (Some (broken_db [])))))
       = [S1, S2]
   \<and> strategy_calls (trace (update_results ''B'' ''t0'' (engine_A (Some (broken_db []))))) = []
   \<and> returned (update_results ''B'' ''t0'' (engine_A (Some (broken_db [])))) = Returned (- 1)"
proof -
  have h: "\<exists>db x. db_manager (engine_A (Some (broken_db []))) = Some db
       \<and> fst (save_result db (result_args ''B'' ''t0'') (game_results db)) = Raised x"
    by (simp add: engine_A_def broken_db_def failing_insert_def)
  then have h': "db_manager (engine_A (Some (broken_db []))) = None
       \<or> (\<exists>db x. db_manager (engine_A (Some (broken_db []))) = Some db
            \<and> fst (save_result db (result_args ''B'' ''t0'') (game_results db)) = Raised x)"
    by (rule disjI2)
  have algs: "algorithms (engine_A (Some (broken_db []))) = [S1, S2]"
    by (simp add: engine_A_def)
  show ?thesis
    using h update_results_failed_persist [OF h'] algs
    by simp
qed

subsection \<open>get_algorithm_stats\<close>

text \<open>
  C7, as the code has it. \<open>get_algorithm_stats\<close> returns what \<open>get_info\<close> gives for each
  registered algorithm, in registration order, followed by one entry for the model exactly
  when the model is set and has an attribute \<open>trained\<close>, whatever its value; the entry
  reports that value under \<open>trained\<close>.
\<close>

theorem get_algorithm_stats_entries:
  "get_algorithm_stats gi e =
     map gi (algorithms e) @
     (case deep_learning_model e of
        None \<Rightarrow> []
      | Some m \<Rightarrow> (case trained m of None \<Rightarrow> [] | Some t \<Rightarrow> [lstm_stat m t]))
   \<and> length (get_algorithm_stats gi e) =
     length (algorithms e) +
     (case deep_learning_model e of
        None \<Rightarrow> 0
      | Some m \<Rightarrow> (case trained m of None \<Rightarrow> 0 | Some t \<Rightarrow> 1))"
  by (simp add: get_algorithm_stats_def append_infos_map split: option.splits)

text \<open>
  The claim C7 as stated fails: a model that is set with \<open>trained = False\<close> contributes an
  entry, the third of the list, with \<open>trained\<close> false.
\<close>

theorem get_algorithm_stats_untrained_counterexample:
  "trained untrained_model = Some False
   \<and> length (get_algorithm_stats get_info
        ((engine_A None)\<lparr>deep_learning_model := Some untrained_model\<rparr>)) = 3
   \<and> stat_name (get_algorithm_stats get_info
        ((engine_A None)\<lparr>deep_learning_model := Some untrained_model\<rparr>) ! 2) = ''LSTM''
   \<and> stat_trained (get_algorithm_stats get_info
        ((engine_A None)\<lparr>deep_learning_model := Some untrained_model\<rparr>) ! 2) = Some False"
  by (simp add: get_algorithm_stats_def engine_A_def untrained_model_def lstm_stat_def)

text \<open>
  C8, as the code has it. The entry of each registered algorithm is what its \<open>get_info\<close>
  returns when \<open>get_algorithm_stats\<close> is called. The entry of the model, when there is one,
  has the accuracy the model has at the call (0.0 when the model has no attribute
  \<open>accuracy\<close>) and the constant weight 1.5.
\<close>

theorem get_algorithm_stats_current:
  "(\<forall>i. i < length (algorithms e) \<longrightarrow>
       get_algorithm_stats gi e ! i = gi (algorithms e ! i))
   \<and> (\<forall>m t. deep_learning_model e = Some m \<and> trained m = Some t \<longrightarrow>
         stat_accuracy (get_algorithm_stats gi e ! length (algorithms e)) =
           (case model_accuracy m of None \<Rightarrow> 0 | Some a \<Rightarrow> a)
         \<and> stat_weight (get_algorithm_stats gi e ! length (algorithms e)) = 3 / 2)"
proof -
  have entries: "get_algorithm_stats gi e =
     map gi (algorithms e) @
     (case deep_learning_model e of
        None \<Rightarrow> []
      | Some m \<Rightarrow> (case trained m of None \<Rightarrow> [] | Some t \<Rightarrow> [lstm_stat m t]))"
    by (simp add: get_algorithm_stats_def append_infos_map split: option.splits)
  have algs: "\<forall>i. i < length (algorithms e) \<longrightarrow>
       get_algorithm_stats gi e ! i = gi (algorithms e ! i)"
    by (simp add: entries nth_append)
  have model: "\<forall>m t. deep_learning_model e = Some m \<and> trained m = Some t \<longrightarrow>
         stat_accuracy (get_algorithm_stats gi e ! length (algorithms e)) =
           (case model_accuracy m of None \<Rightarrow> 0 | Some a \<Rightarrow> a)
         \<and> stat_weight (get_algorithm_stats gi e ! length (algorithms e)) = 3 / 2"
    by (simp add: entries nth_append lstm_stat_def)
  from algs model show ?thesis
    by (rule conjI)
qed

theorem get_algorithm_stats_current_witness:
  "get_algorithm_stats get_info ((engine_A None)\<lparr>deep_learning_model := Some trained_model\<rparr>) ! 0
     = get_info S1
   \<and> get_algorithm_stats get_info ((engine_A None)\<lparr>deep_learning_model := Some trained_model\<rparr>) ! 1
     = get_info S2
   \<and> stat_accuracy
       (get_algorithm_stats get_info
          ((engine_A None)\<lparr>deep_learning_model := Some trained_model\<rparr>) ! 2) = 3 / 5
   \<and> stat_weight
       (get_algorithm_stats get_info
          ((engine_A None)\<lparr>deep_learning_model := Some trained_model\<rparr>) ! 2) = 3 / 2"
proof -
  let ?e = "(engine_A None)\<lparr>deep_learning_model := Some trained_model\<rparr>"
  have algs: "algorithms ?e = [S1, S2]"
    by (simp add: engine_A_def)
  have model: "deep_learning_model ?e = Some trained_model \<and> trained trained_model = Some True"
    by (simp add: trained_model_def)
  have acc: "model_accuracy trained_model = Some (3 / 5)"
    by (simp add: trained_model_def)
  have len: "length (algorithms ?e) = 2"
    by (simp add: algs)
  note inst = get_algorithm_stats_current [of ?e get_info]
  from inst have first: "get_algorithm_stats get_info ?e ! 0 = get_info S1"
    by (simp add: algs)
  from inst have second: "get_algorithm_stats get_info ?e ! 1 = get_info S2"
    by (simp add: algs)
  from inst model
  have "stat_accuracy (get_algorithm_stats get_info ?e ! length (algorithms ?e)) =
          (case model_accuracy trained_model of None \<Rightarrow> 0 | Some a \<Rightarrow> a)
        \<and> stat_weight (get_algorithm_stats get_info ?e ! length (algorithms ?e)) = 3 / 2"
    by blast
  then have third: "stat_accuracy (get_algorithm_stats get_info ?e ! 2) = 3 / 5
        \<and> stat_weight (get_algorithm_stats get_info ?e ! 2) = 3 / 2"
    unfolding len acc by simp
  from first second third show ?thesis
    by blast
qed

text \<open>
  The claim C8 as stated fails: the model's own weight is 0.7, and its entry reports the
  weight 1.5.
\<close>

theorem get_algorithm_stats_weight_counterexample:
  "model_weight trained_model = 7 / 10
   \<and> stat_name (get_algorithm_stats get_info
        ((engine_A None)\<lparr>deep_learning_model := Some trained_model\<rparr>) ! 2) = ''LSTM''
   \<and> stat_weight (get_algorithm_stats get_info
        ((engine_A None)\<lparr>deep_learning_model := Some trained_model\<rparr>) ! 2) = 3 / 2
   \<and> stat_weight (get_algorithm_stats get_info
        ((engine_A None)\<lparr>deep_learning_model := Some trained_model\<rparr>) ! 2)
       \<noteq> model_weight trained_model"
  by (simp add: get_algorithm_stats_def engine_A_def trained_model_def lstm_stat_def)

subsection \<open>register_algorithm\<close>

text \<open>
  C9, as the code has it. \<open>register_algorithm\<close> never rejects and never overwrites: it
  returns normally, the list of algorithms after the call is the list before it followed by
  the new algorithm, and the number of entries bearing the new algorithm's name grows by
  one, also when the name was registered before.
\<close>

theorem register_algorithm_appends:
  "returned (register_algorithm a e) = Returned ()
   \<and> algorithms (engine_after (register_algorithm a e)) = algorithms e @ [a]
   \<and> length (filter (\<lambda>b. alg_name b = alg_name a)
              (algorithms (engine_after (register_algorithm a e)))) =
       Suc (length (filter (\<lambda>b. alg_name b = alg_name a) (algorithms e)))"
  by (simp add: register_algorithm_def returned_def engine_after_def)

text \<open>
  The claim C9 as stated fails: after registering S1 and then a second strategy named S1,
  both are entries of the list, and the names in the list are not distinct.
\<close>

theorem register_algorithm_same_name_counterexample:
  "alg_name (S1\<lparr>alg_weight := 2\<rparr>) = alg_name S1
   \<and> algorithms (engine_after (register_algorithm (S1\<lparr>alg_weight := 2\<rparr>)
        (engine_after (register_algorithm S1 (fst init))))) = [S1, S1\<lparr>alg_weight := 2\<rparr>]
   \<and> \<not> distinct (map alg_name (algorithms (engine_after
        (register_algorithm (S1\<lparr>alg_weight := 2\<rparr>)
           (engine_after (register_algorithm S1 (fst init)))))))"
  by (simp add: register_algorithm_def engine_after_def init_def)

end
